theory Spec2Isabelle
  imports Complex_Main "HOL-Library.Char_ord" "HOL-Library.List_Lexorder"
begin

section \<open>Errors and name resolution\<close>

text \<open>
  Every exception of the Python source is a value. \<open>NameError n\<close> is what Python raises
  when the name \<open>n\<close> is bound neither in the enclosing function, nor in the module, nor
  among the builtins. \<open>External\<close> stands for any exception raised inside a library the
  module calls (pandas, numpy, plio, the continuum routine).
\<close>

datatype label = F real | S string

datatype error =
    NameError string
  | KeyError label
  | LookupMiss real
  | LookupAmbiguous real
  | KeyArity
  | External string

definition then_do :: "error + 'a \<Rightarrow> ('a \<Rightarrow> error + 'b) \<Rightarrow> error + 'b" where
  "then_do r f = (case r of Inl e \<Rightarrow> Inl e | Inr x \<Rightarrow> f x)"

fun sequence :: "(error + 'a) list \<Rightarrow> error + 'a list" where
  "sequence [] = Inr []"
| "sequence (r # rs) = then_do r (\<lambda>x. then_do (sequence rs) (\<lambda>xs. Inr (x # xs)))"

text \<open>
  The names the module \<open>libpysat/data/spectra.py\<close> binds at import time: one for every
  \<open>import\<close> statement of lines 1 to 20, and the class statement of line 25.
\<close>

definition module_globals :: "string list" where
  "module_globals =
     [''pd'', ''rand'', ''np'', ''Real'', ''Number'', ''reduce'', ''singledispatch'',
      ''io_spectral_profiler'', ''_idx'', ''lincorr'', ''linear_correction'',
      ''method_singledispatch'', ''Spectra'']"

text \<open>The builtins the module's functions use.\<close>

definition builtins :: "string list" where
  "builtins = [''super'', ''tuple'', ''len'', ''range'', ''isinstance'', ''hasattr'']"

definition resolve :: "string list \<Rightarrow> string \<Rightarrow> error + string" where
  "resolve g n = (if n \<in> set g \<or> n \<in> set builtins then Inr n else Inl (NameError n))"

section \<open>Tables\<close>

text \<open>
  A pandas DataFrame: column labels (float wavelengths and metadata names), a row index
  that is single-level or composite (a MultiIndex of tuples), and the rows of cells.
\<close>

datatype cell = Num real | Txt string

datatype rowindex = Index "label list" | MultiIndex "string list" "label list list"

record frame =
  columns :: "label list"
  index :: rowindex
  rows :: "cell list list"

text \<open>The indexer objects \<open>_get\<close> and \<open>_iget\<close>: the attribute \<open>_tolerance\<close> may be absent.\<close>

record indexer =
  tolerance_attr :: "real option"

text \<open>\<open>class Spectra(pd.DataFrame)\<close> with the attributes \<open>__init__\<close> sets.\<close>

record Spectra = frame +
  wavelengths :: "real list"
  metadata :: "label list"
  get_indexer :: indexer
  iget_indexer :: indexer

text \<open>A one-dimensional \<open>Spectrum\<close>: data and the labels that index it.\<close>

record Spectrum =
  spectrum_data :: "cell list"
  spectrum_index :: rowindex

fun is_MultiIndex :: "rowindex \<Rightarrow> bool" where
  "is_MultiIndex (Index _) = False"
| "is_MultiIndex (MultiIndex _ _) = True"

fun index_size :: "rowindex \<Rightarrow> nat" where
  "index_size (Index ls) = length ls"
| "index_size (MultiIndex names tuples) = length tuples"

fun nlevels :: "rowindex \<Rightarrow> nat" where
  "nlevels (Index _) = 1"
| "nlevels (MultiIndex names _) = length names"

subsection \<open>pandas' \<open>Index.difference\<close>\<close>

text \<open>
  \<open>Index.difference\<close> returns the receiver as it is, order and duplicates kept, when the
  argument is empty. Otherwise it keeps the labels of the receiver that are not in the
  argument, without duplicates, and sorts them; labels of mixed type are sorted numbers
  first, then strings.
\<close>

fun reals_of :: "label list \<Rightarrow> real list" where
  "reals_of [] = []"
| "reals_of (F r # ls) = r # reals_of ls"
| "reals_of (S s # ls) = reals_of ls"

fun names_of :: "label list \<Rightarrow> string list" where
  "names_of [] = []"
| "names_of (F r # ls) = names_of ls"
| "names_of (S s # ls) = s # names_of ls"

definition safe_sort :: "label list \<Rightarrow> label list" where
  "safe_sort ls = map F (sort (reals_of ls)) @ map S (sort (names_of ls))"

definition index_difference :: "label list \<Rightarrow> label list \<Rightarrow> label list" where
  "index_difference this other =
     (if other = [] then this
      else safe_sort (remdups (filter (\<lambda>l. l \<notin> set other) this)))"

section \<open>Collaborators outside the repository\<close>

text \<open>A raster dataset as the imaging-cube parser hands it over.\<close>

record dataset =
  RasterXSize :: int
  RasterYSize :: int
  ReadAsArray :: "cell list list list"
  GetMetadata_Dict :: "(string \<times> string) list"

text \<open>What \<open>io_spectral_profiler.Spectral_Profiler(f)\<close> returns.\<close>

record profile =
  profile_spectra :: frame
  ancillary_data :: frame

text \<open>The positional arguments \<open>*args\<close> a constructor call passes on to pandas.\<close>

datatype posarg = ArgFrame frame | ArgReals "real list" | ArgNames "string list"

text \<open>
  The libraries the module calls are parameters of the model: each may return or raise.
  \<open>pd_DataFrame\<close> is \<open>pandas.DataFrame.__init__(*args)\<close>; \<open>pd_pivot\<close> is the chain
  \<open>to_frame().unstack(level=1)\<close>, \<open>transpose()\<close>, \<open>swaplevel(0,1)\<close> with the renaming of
  the index levels, and yields the table with its column labels;
  \<open>utils_linear_correction\<close> is \<open>libpysat.utils.utils.linear_correction\<close>.
\<close>

record collaborators =
  pd_DataFrame :: "posarg list \<Rightarrow> error + frame"
  pd_merge :: "frame \<Rightarrow> frame \<Rightarrow> error + frame"
  pd_sort_index :: "frame \<Rightarrow> error + frame"
  pd_pivot :: "frame \<Rightarrow> error + frame \<times> real list"
  pd_merge_on_id :: "frame \<Rightarrow> frame \<Rightarrow> error + frame"
  pd_set_index :: "frame \<Rightarrow> string list \<Rightarrow> error + frame"
  np_swapaxes_reshape :: "cell list list list \<Rightarrow> error + cell list list"
  openm3 :: "string \<Rightarrow> error + real list \<times> dataset"
  Spectral_Profiler :: "string \<Rightarrow> error + profile"
  utils_linear_correction ::
    "int \<times> int \<Rightarrow> cell list \<Rightarrow> real list \<Rightarrow> error + cell list \<times> cell list"

section \<open>The class \<open>Spectra\<close>\<close>

subsection \<open>\<open>__init__\<close>\<close>

text \<open>
  Lines 49 to 60: what the initialiser sets once the base-class initialiser has built
  the table \<open>df\<close>. \<open>if metadata\<close> is Python's truth test: an empty list is false.
\<close>

definition init_attrs :: "frame \<Rightarrow> real list \<Rightarrow> label list \<Rightarrow> real \<Rightarrow> Spectra" where
  "init_attrs df ws md tol =
     \<lparr> columns = columns df, index = index df, rows = rows df,
       wavelengths = ws,
       metadata = (if md \<noteq> [] then md else index_difference (columns df) (map F ws)),
       get_indexer = \<lparr> tolerance_attr = Some tol \<rparr>,
       iget_indexer = \<lparr> tolerance_attr = None \<rparr> \<rparr>"

text \<open>
  Line 47 evaluates the name \<open>_Spectra_DataFrame\<close> before anything else; only then does
  the pandas initialiser receive \<open>*args\<close>.
\<close>

definition Spectra_init ::
  "string list \<Rightarrow> collaborators \<Rightarrow> posarg list \<Rightarrow> real list \<Rightarrow> label list \<Rightarrow> real
     \<Rightarrow> error + Spectra" where
  "Spectra_init g ext args ws md tol =
     then_do (resolve g ''super'') (\<lambda>_.
     then_do (resolve g ''_Spectra_DataFrame'') (\<lambda>_.
     then_do (pd_DataFrame ext args) (\<lambda>df.
     Inr (init_attrs df ws md tol))))"

text \<open>The properties \<open>_constructor_sliced\<close> (line 69) and \<open>_constructor\<close> (line 77).\<close>

definition constructor_sliced :: "string list \<Rightarrow> error + string" where
  "constructor_sliced g = resolve g ''Spectrum''"

definition constructor :: "string list \<Rightarrow> error + string" where
  "constructor g = resolve g ''_Spectra_DataFrame''"

subsection \<open>The \<open>tolerance\<close> property\<close>

text \<open>
  The getter (lines 202 to 206) stores 0.5 when the indexer has no \<open>_tolerance\<close>
  attribute and returns the attribute; it returns the value and the updated object.
  The setter (lines 209 to 211) overwrites the attribute.
\<close>

definition tolerance :: "Spectra \<Rightarrow> real \<times> Spectra" where
  "tolerance self =
     (case tolerance_attr (get_indexer self) of
        None \<Rightarrow> (0.5, self\<lparr> get_indexer := (get_indexer self)\<lparr> tolerance_attr := Some 0.5 \<rparr> \<rparr>)
      | Some t \<Rightarrow> (t, self))"

definition tolerance_setter :: "Spectra \<Rightarrow> real \<Rightarrow> Spectra" where
  "tolerance_setter self val =
     self\<lparr> get_indexer := (get_indexer self)\<lparr> tolerance_attr := Some val \<rparr> \<rparr>"

subsection \<open>The tolerance locator\<close>

text \<open>
  Modelled from the spec: the locator class \<open>SpectrumLocIndexer\<close> of
  \<open>libpysat/data/_index.py\<close> is not among the sources. A stored label matches a
  requested value when their absolute difference is at most the tolerance.
\<close>

definition matches :: "real \<Rightarrow> real list \<Rightarrow> real \<Rightarrow> real list" where
  "matches t ws v = filter (\<lambda>w. \<bar>w - v\<bar> \<le> t) ws"

text \<open>
  Modelled from the spec: matching succeeds if exactly one stored label falls within the
  tolerance window of the requested value; otherwise the lookup fails (no label) or is
  ambiguous (several labels).
\<close>

definition locate :: "real \<Rightarrow> real list \<Rightarrow> real \<Rightarrow> error + real" where
  "locate t ws v =
     (case matches t ws v of
        [] \<Rightarrow> Inl (LookupMiss v)
      | [w] \<Rightarrow> Inr w
      | _ \<Rightarrow> Inl (LookupAmbiguous v))"

text \<open>
  Modelled from the spec: a real-valued key is tolerance-matched against the wavelength
  labels of the table; any other key names a column exactly.
\<close>

fun resolve_label :: "real \<Rightarrow> real list \<Rightarrow> label list \<Rightarrow> label \<Rightarrow> error + label" where
  "resolve_label t ws cols (F v) = then_do (locate t ws v) (\<lambda>w. Inr (F w))"
| "resolve_label t ws cols (S n) = (if S n \<in> set cols then Inr (S n) else Inl (KeyError (S n)))"

text \<open>
  Modelled from the spec: the matched position is used to fetch the data as a direct
  positional fetch would. \<open>pick xs is\<close> are the elements of \<open>xs\<close> at the positions \<open>is\<close>.
\<close>

definition pick :: "'a list \<Rightarrow> nat list \<Rightarrow> 'a list" where
  "pick xs ps = concat (map (\<lambda>i. take 1 (drop i xs)) ps)"

text \<open>
  Modelled from the spec: the position of a label among the column labels (the first one,
  if the label occurs more than once).
\<close>

fun position_of :: "label \<Rightarrow> label list \<Rightarrow> nat option" where
  "position_of l [] = None"
| "position_of l (c # cs) = (if c = l then Some 0 else map_option Suc (position_of l cs))"

text \<open>
  Modelled from the spec: a label that is no column is a failed lookup.
\<close>

definition column_position :: "label list \<Rightarrow> label \<Rightarrow> error + nat" where
  "column_position cols l =
     (case position_of l cols of None \<Rightarrow> Inl (KeyError l) | Some i \<Rightarrow> Inr i)"

text \<open>
  Modelled from the spec: the cells of the column with the given label, one for each row.
\<close>

definition fetch_column :: "label list \<Rightarrow> cell list list \<Rightarrow> label \<Rightarrow> error + cell list" where
  "fetch_column cols rs l =
     then_do (column_position cols l) (\<lambda>i. Inr (concat (map (\<lambda>r. take 1 (drop i r)) rs)))"

datatype keypart = SliceAll | Key label | Keys "label list"

text \<open>
  Modelled from the spec: the components of a key before the last select rows, one
  component for each level of the row index, and are exact.
\<close>

fun selects :: "keypart \<Rightarrow> label \<Rightarrow> bool" where
  "selects SliceAll l = True"
| "selects (Key k) l = (k = l)"
| "selects (Keys ks) l = (l \<in> set ks)"

text \<open>
  Modelled from the spec: the positions of the rows whose index entry agrees with the
  row components of the key, level by level.
\<close>

fun select_rows :: "rowindex \<Rightarrow> keypart list \<Rightarrow> nat list" where
  "select_rows (Index ls) ps =
     filter (\<lambda>i. list_all2 selects ps [ls ! i]) [0..<length ls]"
| "select_rows (MultiIndex names tuples) ps =
     filter (\<lambda>i. list_all2 selects ps (tuples ! i)) [0..<length tuples]"

text \<open>
  Modelled from the spec: the row index of the selected rows.
\<close>

fun pick_index :: "rowindex \<Rightarrow> nat list \<Rightarrow> rowindex" where
  "pick_index (Index ls) ps = Index (pick ls ps)"
| "pick_index (MultiIndex names tuples) ps = MultiIndex names (pick tuples ps)"

datatype selection = AsSpectrum Spectrum | AsSpectra Spectra

text \<open>
  Modelled from the spec: the indexing operator of the locator takes a key with one
  component for each index level and a last one for the columns. A sequence of labels
  (or a full slice) as the column component gives a result of the same rank, which is
  built by the table's \<open>_constructor\<close> and carries the wavelengths, the metadata labels
  and the tolerance of the table. The tolerance is the one the \<open>tolerance\<close> getter reads.
\<close>

definition select_columns ::
  "string list \<Rightarrow> Spectra \<Rightarrow> nat list \<Rightarrow> label list \<Rightarrow> error + selection" where
  "select_columns g self ps ks =
     then_do (sequence (map (resolve_label (fst (tolerance self)) (wavelengths self)
                (columns self)) ks)) (\<lambda>ls.
     then_do (sequence (map (column_position (columns self)) ls)) (\<lambda>js.
     then_do (constructor g) (\<lambda>_.
     Inr (AsSpectra (self\<lparr> columns := ls, index := pick_index (index self) ps,
                          rows := map (\<lambda>r. pick r js) (pick (rows self) ps) \<rparr>)))))"

text \<open>
  Modelled from the spec: a single label as the column component selects one column, and
  the result is a one-dimensional spectrum built by \<open>_constructor_sliced\<close>.
\<close>

definition select_column ::
  "string list \<Rightarrow> Spectra \<Rightarrow> nat list \<Rightarrow> label \<Rightarrow> error + selection" where
  "select_column g self ps k =
     then_do (resolve_label (fst (tolerance self)) (wavelengths self) (columns self) k) (\<lambda>l.
     then_do (fetch_column (columns self) (pick (rows self) ps) l) (\<lambda>col.
     then_do (constructor_sliced g) (\<lambda>_.
     Inr (AsSpectrum \<lparr> spectrum_data = col,
                       spectrum_index = pick_index (index self) ps \<rparr>))))"

text \<open>
  Modelled from the spec: the indexing operator itself; a key of the wrong arity for the
  row index is a failed lookup.
\<close>

definition SpectrumLocIndexer_getitem ::
  "string list \<Rightarrow> Spectra \<Rightarrow> keypart list \<Rightarrow> error + selection" where
  "SpectrumLocIndexer_getitem g self parts =
     (if length parts \<noteq> nlevels (index self) + 1 then Inl KeyArity
      else
        (let ps = select_rows (index self) (butlast parts) in
         case last parts of
           SliceAll \<Rightarrow> select_columns g self ps (columns self)
         | Key k \<Rightarrow> select_column g self ps k
         | Keys ks \<Rightarrow> select_columns g self ps ks))"

subsection \<open>Element access and the two views\<close>

text \<open>
  \<open>__getitem__\<close> (lines 141 to 144) hands the key to the locator \<open>self.get\<close>, which is the
  parameter \<open>get\<close> here: behind two full slices when the row index is a MultiIndex,
  behind one otherwise. The properties \<open>meta\<close> and \<open>spectra\<close> (lines 188 to 195) go
  through it with the stored label sequences as the key.
\<close>

definition getitem :: "(Spectra \<Rightarrow> keypart list \<Rightarrow> 'r) \<Rightarrow> Spectra \<Rightarrow> keypart \<Rightarrow> 'r" where
  "getitem get self key =
     (if is_MultiIndex (index self) then get self [SliceAll, SliceAll, key]
      else get self [SliceAll, key])"

definition meta :: "(Spectra \<Rightarrow> keypart list \<Rightarrow> 'r) \<Rightarrow> Spectra \<Rightarrow> 'r" where
  "meta get self = getitem get self (Keys (metadata self))"

definition spectra :: "(Spectra \<Rightarrow> keypart list \<Rightarrow> 'r) \<Rightarrow> Spectra \<Rightarrow> 'r" where
  "spectra get self = getitem get self (Keys (map F (wavelengths self)))"

subsection \<open>The loaders\<close>

text \<open>
  Line 99: the pixel coordinates, one pair for each \<open>i\<close> of \<open>range(xsize * ysize)\<close>.
  The quotient and the remainder of Python round towards minus infinity, as those of
  \<open>int\<close> do; an empty range evaluates no remainder.
\<close>

definition coords :: "int \<Rightarrow> int \<Rightarrow> (int \<times> int) list" where
  "coords xsize ysize = map (\<lambda>i. (i mod xsize, i div xsize)) [0 .. xsize * ysize - 1]"

definition coords_index :: "(int \<times> int) list \<Rightarrow> rowindex" where
  "coords_index cs =
     MultiIndex [''x'', ''y''] (map (\<lambda>(x, y). [F (of_int x), F (of_int y)]) cs)"

text \<open>
  \<open>from_m3\<close> (lines 94 to 109). Its first statement evaluates the name
  \<open>io_moon_minerology_mapper\<close>. The last line passes the wavelengths and the metadata
  names as second and third positional argument, so they reach the pandas initialiser
  and the keyword parameters \<open>wavelengths\<close> and \<open>metadata\<close> keep their defaults.
\<close>

definition from_m3 :: "string list \<Rightarrow> collaborators \<Rightarrow> string \<Rightarrow> real \<Rightarrow> error + Spectra" where
  "from_m3 g ext path_to_file tol =
     then_do (resolve g ''io_moon_minerology_mapper'') (\<lambda>_.
     then_do (openm3 ext path_to_file) (\<lambda>(ws, ds).
     then_do (np_swapaxes_reshape ext (ReadAsArray ds)) (\<lambda>m3_array.
       (let idx = coords_index (coords (RasterXSize ds) (RasterYSize ds));
            m3_df = \<lparr> columns = map F ws, index = idx, rows = m3_array \<rparr>;
            meta_dict = GetMetadata_Dict ds;
            meta_keys = map fst meta_dict;
            meta_df = \<lparr> columns = map S meta_keys, index = idx,
                        rows = replicate (index_size idx) (map (\<lambda>kv. Txt (snd kv)) meta_dict) \<rparr>
        in then_do (pd_merge ext m3_df meta_df) (\<lambda>spectra_df.
           then_do (pd_sort_index ext spectra_df) (\<lambda>spectra_df.
           Spectra_init g ext [ArgFrame spectra_df, ArgReals ws, ArgNames meta_keys]
             [] [] tol))))))"

text \<open>\<open>from_spectral_profiler\<close> (lines 160 to 175).\<close>

definition from_spectral_profiler ::
  "string list \<Rightarrow> collaborators \<Rightarrow> string \<Rightarrow> real \<Rightarrow> error + Spectra" where
  "from_spectral_profiler g ext f tol =
     then_do (resolve g ''io_spectral_profiler'') (\<lambda>_.
     then_do (Spectral_Profiler ext f) (\<lambda>geo_data.
     then_do (pd_pivot ext (profile_spectra geo_data)) (\<lambda>(df, ws).
     then_do (pd_merge_on_id ext df (ancillary_data geo_data)) (\<lambda>df.
     then_do (pd_set_index ext df [''minor'', ''id'']) (\<lambda>df.
     Spectra_init g ext [ArgFrame df] ws [] tol)))))"

subsection \<open>\<open>linear_correction\<close>\<close>

text \<open>Line 117: the two anchor positions handed to the continuum routine.\<close>

definition bands :: "real list \<Rightarrow> int \<times> int" where
  "bands ws = (0, int (length ws) - 1)"

text \<open>\<open>row[wavelengths]\<close>: the cells of a row under the given labels.\<close>

definition row_getitem :: "label list \<Rightarrow> cell list \<Rightarrow> real list \<Rightarrow> error + cell list" where
  "row_getitem cols row ws =
     sequence (map (\<lambda>w. case map_of (zip cols row) (F w) of
                           None \<Rightarrow> Inl (KeyError (F w))
                         | Some c \<Rightarrow> Inr c) ws)"

text \<open>
  The local function \<open>lincorr\<close> (lines 119 to 124): the call of the continuum routine
  with the anchors, then the name \<open>Spectrum\<close>.
\<close>

definition lincorr ::
  "string list \<Rightarrow> collaborators \<Rightarrow> int \<times> int \<Rightarrow> real list \<Rightarrow> label list \<Rightarrow> cell list
     \<Rightarrow> error + Spectrum" where
  "lincorr g ext bnds ws cols row =
     then_do (resolve g ''linear_correction'') (\<lambda>_.
     then_do (row_getitem cols row ws) (\<lambda>vals.
     then_do (utils_linear_correction ext bnds vals ws) (\<lambda>(corr, y).
     then_do (resolve g ''Spectrum'') (\<lambda>_.
     Inr \<lparr> spectrum_data = corr, spectrum_index = Index (map F ws) \<rparr>))))"

text \<open>
  \<open>self.apply(f, axis=1)\<close> (line 126). For a table without rows or without columns pandas
  returns a copy of the table, which \<open>_constructor\<close> builds. Otherwise it builds every row
  as a one-dimensional object with \<open>_constructor_sliced\<close> before it calls \<open>f\<close> on the rows
  in order, and \<open>_constructor\<close> builds the table of the results, whose columns are the
  labels that index the results.
\<close>

definition apply_axis1 ::
  "string list \<Rightarrow> (cell list \<Rightarrow> error + Spectrum) \<Rightarrow> label list \<Rightarrow> Spectra \<Rightarrow> error + frame" where
  "apply_axis1 g f result_labels self =
     (if rows self = [] \<or> columns self = [] then
        then_do (constructor g) (\<lambda>_.
        Inr \<lparr> columns = columns self, index = index self, rows = rows self \<rparr>)
      else
        then_do (constructor_sliced g) (\<lambda>_.
        then_do (sequence (map f (rows self))) (\<lambda>results.
        then_do (constructor g) (\<lambda>_.
        Inr \<lparr> columns = result_labels, index = index self,
              rows = map spectrum_data results \<rparr>))))"

text \<open>
  Lines 116 to 127: the anchors are computed from the stored wavelengths, \<open>lincorr\<close> is
  applied to the rows, and the constructor is called with the resulting data, the
  wavelengths and the tolerance; no metadata is passed.
\<close>

definition linear_correction :: "string list \<Rightarrow> collaborators \<Rightarrow> Spectra \<Rightarrow> error + Spectra" where
  "linear_correction g ext self =
     (let ws = wavelengths self; bnds = bands ws in
      then_do (apply_axis1 g (lincorr g ext bnds ws (columns self)) (map F ws) self) (\<lambda>data.
      then_do (resolve g ''Spectra'') (\<lambda>_.
      Spectra_init g ext [ArgFrame data] ws [] (fst (tolerance self)))))"

section \<open>Example tables\<close>

text \<open>
  The table of the specification's example: wavelengths 700, 750 and 800, one row
  0.10, 0.12, 0.09, tolerance 1.
\<close>

definition example_frame :: frame where
  "example_frame =
     \<lparr> columns = [F 700, F 750, F 800], index = Index [S ''obs''],
       rows = [[Num 0.10, Num 0.12, Num 0.09]] \<rparr>"

definition example_table :: Spectra where
  "example_table = init_attrs example_frame [700, 750, 800] [] 1"

text \<open>The same row under the composite row index of a cube of one pixel.\<close>

definition example_cube :: Spectra where
  "example_cube =
     init_attrs (example_frame\<lparr> index := coords_index (coords 1 1) \<rparr>) [700, 750, 800] [] 2"

text \<open>A table with one wavelength column and one metadata column.\<close>

definition example_meta_frame :: frame where
  "example_meta_frame =
     \<lparr> columns = [F 700, S ''azimuth''], index = Index [S ''obs''],
       rows = [[Num 0.10, Txt ''12'']] \<rparr>"

definition example_meta_table :: Spectra where
  "example_meta_table = init_attrs example_meta_frame [700] [] 1"


text \<open>
  The namespace of the module with the two class names it leaves unbound bound as well.
\<close>

definition patched_globals :: "string list" where
  "patched_globals = ''Spectrum'' # ''_Spectra_DataFrame'' # module_globals"

text \<open>Collaborators whose continuum routine returns the curve it is given.\<close>

definition example_collaborators :: collaborators where
  "example_collaborators =
     \<lparr> pd_DataFrame = (\<lambda>args. case args of [ArgFrame df] \<Rightarrow> Inr df
                                  | _ \<Rightarrow> Inl (External ''DataFrame'')),
       pd_merge = (\<lambda>a b. Inl (External ''merge'')),
       pd_sort_index = (\<lambda>a. Inr a),
       pd_pivot = (\<lambda>a. Inl (External ''pivot'')),
       pd_merge_on_id = (\<lambda>a b. Inl (External ''merge'')),
       pd_set_index = (\<lambda>a ns. Inr a),
       np_swapaxes_reshape = (\<lambda>a. Inl (External ''reshape'')),
       openm3 = (\<lambda>p. Inl (External ''openm3'')),
       Spectral_Profiler = (\<lambda>p. Inl (External ''Spectral_Profiler'')),
       utils_linear_correction = (\<lambda>b vals ws. Inr (vals, vals)) \<rparr>"


section \<open>Results\<close>

subsection \<open>Auxiliary facts\<close>

lemma then_do_simps [simp]:
  "then_do (Inl e) f = Inl e"
  "then_do (Inr x) f = f x"
  by (simp_all add: then_do_def)

lemma resolve_Spectra_DataFrame:
  "resolve module_globals ''_Spectra_DataFrame'' = Inl (NameError ''_Spectra_DataFrame'')"
  by (simp add: resolve_def module_globals_def builtins_def)

lemma resolve_Spectrum:
  "resolve module_globals ''Spectrum'' = Inl (NameError ''Spectrum'')"
  by (simp add: resolve_def module_globals_def builtins_def)

lemma resolve_io_moon_minerology_mapper:
  "resolve module_globals ''io_moon_minerology_mapper''
     = Inl (NameError ''io_moon_minerology_mapper'')"
  by (simp add: resolve_def module_globals_def builtins_def)

lemma resolve_bound:
  "resolve g ''super'' = Inr ''super''"
  "resolve module_globals ''linear_correction'' = Inr ''linear_correction''"
  "resolve module_globals ''Spectra'' = Inr ''Spectra''"
  by (simp_all add: resolve_def module_globals_def builtins_def)

lemma Spectra_init_NameError:
  "Spectra_init module_globals ext args ws md tol = Inl (NameError ''_Spectra_DataFrame'')"
  by (simp add: Spectra_init_def resolve_bound resolve_Spectra_DataFrame)

lemma from_m3_NameError:
  "from_m3 module_globals ext path tol = Inl (NameError ''io_moon_minerology_mapper'')"
  by (simp add: from_m3_def resolve_io_moon_minerology_mapper)

lemma from_spectral_profiler_fails:
  "isl (from_spectral_profiler module_globals ext f tol)"
  by (auto simp: from_spectral_profiler_def then_do_def Spectra_init_NameError
        split: sum.splits prod.splits)

lemma names_bound:
  "resolve patched_globals ''Spectrum'' = Inr ''Spectrum''"
  "resolve patched_globals ''_Spectra_DataFrame'' = Inr ''_Spectra_DataFrame''"
  "resolve patched_globals ''linear_correction'' = Inr ''linear_correction''"
  "resolve patched_globals ''Spectra'' = Inr ''Spectra''"
  by (simp_all add: resolve_def patched_globals_def module_globals_def)

lemma linear_correction_fails:
  "isl (linear_correction module_globals ext self)"
  by (auto simp: linear_correction_def apply_axis1_def Let_def then_do_def
        Spectra_init_NameError constructor_def constructor_sliced_def
        resolve_Spectra_DataFrame resolve_Spectrum
        split: sum.splits)

lemma select_columns_fails: "isl (select_columns module_globals self ps ks)"
  by (auto simp: select_columns_def then_do_def constructor_def resolve_Spectra_DataFrame
        split: sum.splits)

lemma select_column_fails: "isl (select_column module_globals self ps k)"
  by (auto simp: select_column_def then_do_def constructor_sliced_def resolve_Spectrum
        split: sum.splits)

lemma getitem_Keys_fails:
  "isl (getitem (SpectrumLocIndexer_getitem module_globals) self (Keys ks))"
  by (simp add: getitem_def SpectrumLocIndexer_getitem_def Let_def select_columns_fails)

lemma getitem_Key_fails:
  "isl (getitem (SpectrumLocIndexer_getitem module_globals) self (Key k))"
  by (simp add: getitem_def SpectrumLocIndexer_getitem_def Let_def select_column_fails)

lemma set_safe_sort: "set (safe_sort ls) = set ls"
proof -
  have "F ` set (reals_of ls) \<union> S ` set (names_of ls) = set ls"
    by (induction ls rule: reals_of.induct) auto
  then show ?thesis by (simp add: safe_sort_def)
qed

lemma set_index_difference: "set (index_difference this other) = set this - set other"
  by (auto simp: index_difference_def set_safe_sort)

text \<open>
  What the initialiser stores for the default metadata argument: the labels of the
  columns that are no wavelength label, so the two label sets are disjoint; their union
  is the set of all columns when every wavelength label is a column.
\<close>

lemma metadata_is_complement:
  "set (metadata (init_attrs df ws [] tol)) = set (columns df) - set (map F ws)"
  "set (map F ws) \<inter> set (metadata (init_attrs df ws [] tol)) = {}"
  "set (map F ws) \<subseteq> set (columns df)
     \<Longrightarrow> set (map F ws) \<union> set (metadata (init_attrs df ws [] tol)) = set (columns df)"
  by (auto simp: init_attrs_def set_index_difference)

lemma corrected_data_has_no_metadata:
  "metadata (init_attrs \<lparr> columns = map F ws, index = ix, rows = rs \<rparr> ws [] tol) = []"
proof -
  have "filter (\<lambda>l. l \<notin> set (map F ws)) (map F ws) = []"
    by (simp add: filter_empty_conv)
  then show ?thesis
    by (simp add: init_attrs_def index_difference_def safe_sort_def)
qed

lemma matches_unique:
  assumes "distinct ws" "w \<in> set ws" "\<bar>w - v\<bar> \<le> t"
    and "\<forall>w' \<in> set ws. w' \<noteq> w \<longrightarrow> t < \<bar>w' - v\<bar>"
  shows "matches t ws v = [w]"
proof -
  have "filter (\<lambda>w'. \<bar>w' - v\<bar> \<le> t) ws = filter (\<lambda>w'. w' = w) ws"
    using assms by (intro filter_cong) auto
  also have "\<dots> = [w]"
    using assms(1,2) by (induction ws) (auto simp: filter_empty_conv)
  finally show ?thesis by (simp add: matches_def)
qed

lemma matches_none:
  assumes "\<forall>w' \<in> set ws. t < \<bar>w' - v\<bar>"
  shows "matches t ws v = []"
  using assms by (auto simp: matches_def filter_empty_conv)


text \<open>
  The pixel coordinates line 99 computes: entry \<open>i\<close> is \<open>(i mod xsize, i div xsize)\<close>.
\<close>

lemma coords_nth:
  assumes "0 \<le> i" "i < xsize * ysize"
  shows "coords xsize ysize ! nat i = (i mod xsize, i div xsize)"
proof -
  have "[0 .. xsize * ysize - 1] ! nat i = i"
    using assms by (simp add: nth_upto)
  moreover have "nat i < length [0 .. xsize * ysize - 1]"
    using assms by simp
  ultimately show ?thesis by (simp add: coords_def)
qed

text \<open>
  The last line of \<open>from_m3\<close> passes the wavelengths positionally, so any table the loader
  returned would have no wavelength labels, in whatever namespace it ran.
\<close>

lemma from_m3_result_has_no_wavelengths:
  "from_m3 g ext path tol = Inr table \<Longrightarrow> wavelengths table = []"
  by (auto simp: from_m3_def Spectra_init_def then_do_def init_attrs_def Let_def
        split: sum.splits prod.splits)

text \<open>
  With the continuum routine of the example and a namespace that binds every name the
  method evaluates, \<open>linear_correction\<close> returns the table the constructor call describes:
  the corrected row under the wavelengths, no metadata labels, the tolerance of the input.
\<close>

lemma linear_correction_with_names_bound:
  "linear_correction patched_globals example_collaborators example_table
   = Inr (init_attrs example_frame [700, 750, 800] [] 1)"
  by (simp add: linear_correction_def apply_axis1_def lincorr_def bands_def row_getitem_def
      Spectra_init_def constructor_def constructor_sliced_def names_bound resolve_bound
      example_collaborators_def example_table_def example_frame_def init_attrs_def
      tolerance_def Let_def)

text \<open>
  In that namespace the views and a lookup within the tolerance return what the
  specification describes for them; a lookup with no stored label within the tolerance
  is a lookup miss in every namespace.
\<close>

lemma views_with_names_bound:
  "spectra (SpectrumLocIndexer_getitem patched_globals) example_meta_table
     = Inr (AsSpectra (example_meta_table\<lparr> columns := [F 700], index := Index [S ''obs''],
                                           rows := [[Num 0.10]] \<rparr>))"
  "meta (SpectrumLocIndexer_getitem patched_globals) example_meta_table
     = Inr (AsSpectra (example_meta_table\<lparr> columns := [S ''azimuth''],
                                           index := Index [S ''obs''],
                                           rows := [[Txt ''12'']] \<rparr>))"
  by (simp_all add: spectra_def meta_def getitem_def SpectrumLocIndexer_getitem_def
      select_columns_def constructor_def names_bound locate_def matches_def pick_def
      column_position_def tolerance_def example_meta_table_def example_meta_frame_def
      init_attrs_def index_difference_def safe_sort_def Let_def)

lemma lookup_with_names_bound:
  "getitem (SpectrumLocIndexer_getitem patched_globals) example_table (Key (F (750 + 0.3)))
     = Inr (AsSpectrum \<lparr> spectrum_data = [Num 0.12], spectrum_index = Index [S ''obs''] \<rparr>)"
  by (simp add: getitem_def SpectrumLocIndexer_getitem_def select_column_def
      constructor_sliced_def names_bound locate_def matches_def pick_def fetch_column_def
      column_position_def tolerance_def example_table_def example_frame_def init_attrs_def
      Let_def)

lemma lookup_miss:
  "getitem (SpectrumLocIndexer_getitem g) example_table (Key (F 760)) = Inl (LookupMiss 760)"
  by (simp add: getitem_def SpectrumLocIndexer_getitem_def select_column_def locate_def
      matches_def tolerance_def example_table_def example_frame_def init_attrs_def Let_def)

subsection \<open>Name resolution\<close>

text \<open>
  C1: for every argument list, constructing a \<open>Spectra\<close> raises a NameError for
  \<open>_Spectra_DataFrame\<close>, the name \<open>__init__\<close> passes to \<open>super\<close> and \<open>_constructor\<close>
  returns; so neither loader, nor \<open>linear_correction\<close>, nor the \<open>spectra\<close> and \<open>meta\<close> views
  return normally, whatever the libraries they call do.
\<close>

theorem Spectra_construction_raises_NameError:
  "Spectra_init module_globals ext args ws md tol = Inl (NameError ''_Spectra_DataFrame'')
   \<and> constructor module_globals = Inl (NameError ''_Spectra_DataFrame'')
   \<and> isl (from_m3 module_globals ext path tol)
   \<and> isl (from_spectral_profiler module_globals ext path tol)
   \<and> isl (linear_correction module_globals ext self)
   \<and> isl (spectra (SpectrumLocIndexer_getitem module_globals) self)
   \<and> isl (meta (SpectrumLocIndexer_getitem module_globals) self)"
  by (simp add: Spectra_init_NameError constructor_def resolve_Spectra_DataFrame
      from_m3_NameError from_spectral_profiler_fails linear_correction_fails
      spectra_def meta_def getitem_Keys_fails)

text \<open>
  C9: for every file path and tolerance, \<open>from_m3\<close> raises a NameError for
  \<open>io_moon_minerology_mapper\<close> before it parses anything: the module binds
  \<open>io_spectral_profiler\<close> only, and the result does not depend on what the parser would do.
\<close>

theorem from_m3_raises_NameError:
  "from_m3 module_globals ext path tol = Inl (NameError ''io_moon_minerology_mapper'')
   \<and> ''io_moon_minerology_mapper'' \<notin> set module_globals
   \<and> ''io_spectral_profiler'' \<in> set module_globals"
  by (simp add: from_m3_NameError) (simp add: module_globals_def)

text \<open>
  C5: the imaging-cube loader is to return a table whose rows are keyed by the pixel
  coordinates and sorted by them. In the module as it is, \<open>from_m3\<close> returns no table: for
  the path \<open>cube.img\<close> and the default tolerance 2 the result is the NameError of its
  first statement.
\<close>

theorem from_m3_returns_no_table:
  "from_m3 module_globals ext ''cube.img'' 2 \<noteq> Inr table"
  by (simp add: from_m3_NameError)

subsection \<open>The tolerance accessor\<close>

text \<open>
  C2: reading \<open>tolerance\<close> returns the stored value, and 0.5 when none was ever set (the
  default is then stored); writing overwrites the stored value, so a read after a write
  returns the written value. The initialiser stores its \<open>tolerance\<close> argument, so a table
  it has set up reads that argument back.
\<close>

theorem tolerance_accessor:
  "(tolerance_attr (get_indexer self) = Some t \<longrightarrow> fst (tolerance self) = t)
   \<and> (tolerance_attr (get_indexer self) = None \<longrightarrow> fst (tolerance self) = 0.5)
   \<and> fst (tolerance (tolerance_setter self val)) = val
   \<and> fst (tolerance (snd (tolerance self))) = fst (tolerance self)
   \<and> fst (tolerance (init_attrs df ws md tol)) = tol"
  by (auto simp: tolerance_def tolerance_setter_def init_attrs_def split: option.splits)

theorem tolerance_accessor_witness:
  "tolerance_attr (get_indexer example_table) = Some 1
   \<and> fst (tolerance example_table) = 1
   \<and> tolerance_attr (get_indexer (example_table\<lparr> get_indexer := \<lparr> tolerance_attr = None \<rparr> \<rparr>)) = None
   \<and> fst (tolerance (example_table\<lparr> get_indexer := \<lparr> tolerance_attr = None \<rparr> \<rparr>)) = 0.5
   \<and> fst (tolerance (tolerance_setter example_table 0)) = 0"
  using tolerance_accessor [of example_table 1 0]
    tolerance_accessor [of "example_table\<lparr> get_indexer := \<lparr> tolerance_attr = None \<rparr> \<rparr>" 1 0]
  by (simp add: example_table_def init_attrs_def)

subsection \<open>Element access\<close>

text \<open>
  C3: for every table and key, \<open>__getitem__\<close> hands the key to the locator as the second
  component behind one full slice when the row index is single-level (\<open>get[:, key]\<close>),
  and as the third component behind two full slices when the row index is a MultiIndex
  (\<open>get[:, :, key]\<close>).
\<close>

theorem getitem_dispatch:
  "(\<not> is_MultiIndex (index self) \<longrightarrow> getitem get self key = get self [SliceAll, key])
   \<and> (is_MultiIndex (index self) \<longrightarrow> getitem get self key = get self [SliceAll, SliceAll, key])"
  by (simp add: getitem_def)

theorem getitem_dispatch_witness:
  "\<not> is_MultiIndex (index example_table)
   \<and> getitem (\<lambda>self parts. parts) example_table (Key (F 750.3)) = [SliceAll, Key (F 750.3)]
   \<and> is_MultiIndex (index example_cube)
   \<and> getitem (\<lambda>self parts. parts) example_cube (Key (F 750.3))
       = [SliceAll, SliceAll, Key (F 750.3)]"
  using getitem_dispatch [of example_table "\<lambda>self parts. parts" "Key (F 750.3)"]
    getitem_dispatch [of example_cube "\<lambda>self parts. parts" "Key (F 750.3)"]
  by (simp add: example_table_def example_cube_def example_frame_def init_attrs_def
      coords_index_def)

subsection \<open>The two views\<close>

text \<open>
  C4: the \<open>spectra\<close> view is to have exactly the wavelength labels as its columns and the
  \<open>meta\<close> view exactly the other columns of the table. In the module as it is, neither
  view returns a table: on the table with the wavelength column 700 and the metadata
  column \<open>azimuth\<close> both raise the NameError for \<open>_Spectra_DataFrame\<close>, and for every
  table the result of either view is an error.
\<close>

theorem views_raise_NameError:
  "spectra (SpectrumLocIndexer_getitem module_globals) example_meta_table
     = Inl (NameError ''_Spectra_DataFrame'')
   \<and> meta (SpectrumLocIndexer_getitem module_globals) example_meta_table
     = Inl (NameError ''_Spectra_DataFrame'')
   \<and> spectra (SpectrumLocIndexer_getitem module_globals) self \<noteq> Inr view
   \<and> meta (SpectrumLocIndexer_getitem module_globals) self \<noteq> Inr view"
proof (intro conjI)
  show "spectra (SpectrumLocIndexer_getitem module_globals) example_meta_table
          = Inl (NameError ''_Spectra_DataFrame'')"
    and "meta (SpectrumLocIndexer_getitem module_globals) example_meta_table
          = Inl (NameError ''_Spectra_DataFrame'')"
    by (simp_all add: spectra_def meta_def getitem_def SpectrumLocIndexer_getitem_def
        select_columns_def constructor_def resolve_Spectra_DataFrame locate_def matches_def
        column_position_def tolerance_def example_meta_table_def example_meta_frame_def
        init_attrs_def index_difference_def safe_sort_def Let_def)
  show "spectra (SpectrumLocIndexer_getitem module_globals) self \<noteq> Inr view"
    using getitem_Keys_fails [of self "map F (wavelengths self)"]
    by (auto simp: spectra_def)
  show "meta (SpectrumLocIndexer_getitem module_globals) self \<noteq> Inr view"
    using getitem_Keys_fails [of self "metadata self"]
    by (auto simp: meta_def)
qed

subsection \<open>Linear correction\<close>



text \<open>
  C7: \<open>linear_correction\<close> is to return a new table with one corrected spectrum for each
  row. In the module as it is, it returns no table: on the example table the result is
  the NameError for \<open>Spectrum\<close>, the name \<open>_constructor_sliced\<close> returns and the local
  function evaluates, and for every table and every behaviour of the libraries the
  result is an error.
\<close>

theorem linear_correction_raises:
  "linear_correction module_globals example_collaborators example_table
     = Inl (NameError ''Spectrum'')
   \<and> isl (linear_correction module_globals ext self)"
  by (simp add: linear_correction_fails)
     (simp add: linear_correction_def apply_axis1_def constructor_sliced_def resolve_Spectrum
        example_table_def example_frame_def init_attrs_def Let_def)

text \<open>
  C10: the table \<open>linear_correction\<close> returns is to hold wavelength columns only. In the
  module as it is, no table is built: for a table without rows the result is the
  NameError for \<open>_Spectra_DataFrame\<close>, the name \<open>_constructor\<close> returns and the
  initialiser evaluates, and no table is returned for any input.
\<close>

theorem linear_correction_constructor_raises:
  "linear_correction module_globals ext (self\<lparr> rows := [] \<rparr>)
     = Inl (NameError ''_Spectra_DataFrame'')
   \<and> linear_correction module_globals ext self \<noteq> Inr table"
proof
  show "linear_correction module_globals ext (self\<lparr> rows := [] \<rparr>)
          = Inl (NameError ''_Spectra_DataFrame'')"
    by (simp add: linear_correction_def apply_axis1_def constructor_def
        resolve_Spectra_DataFrame Let_def)
  show "linear_correction module_globals ext self \<noteq> Inr table"
    using linear_correction_fails [of ext self] by auto
qed

subsection \<open>Tolerance lookups\<close>

text \<open>
  C8: a lookup of a value within the tolerance of a stored wavelength label is to return
  the data of that label. In the module as it is, it returns nothing: on the example
  table (tolerance 1) the lookup of 750.3 matches the label 750 and then raises the
  NameError for \<open>Spectrum\<close>, the name \<open>_constructor_sliced\<close> returns, and for every table
  and every single key the result of the lookup is an error.
\<close>

theorem tolerance_lookup_raises_NameError:
  "getitem (SpectrumLocIndexer_getitem module_globals) example_table (Key (F (750 + 0.3)))
     = Inl (NameError ''Spectrum'')
   \<and> getitem (SpectrumLocIndexer_getitem module_globals) self (Key k) \<noteq> Inr found"
proof
  show "getitem (SpectrumLocIndexer_getitem module_globals) example_table (Key (F (750 + 0.3)))
          = Inl (NameError ''Spectrum'')"
    by (simp add: getitem_def SpectrumLocIndexer_getitem_def select_column_def
        constructor_sliced_def resolve_Spectrum locate_def matches_def pick_def
        fetch_column_def column_position_def tolerance_def example_table_def
        example_frame_def init_attrs_def Let_def)
  show "getitem (SpectrumLocIndexer_getitem module_globals) self (Key k) \<noteq> Inr found"
    using getitem_Key_fails [of self k] by auto
qed

end
